theory Spec2Isabelle
  imports Main "HOL-Library.Word" "HOL-Library.Sublist"
begin

section \<open>The JVMCI coordinator (jvmci.cpp) as state-passing functions\<close>

text \<open>
  The class \<open>JVMCI\<close> has only static members. Its fields become one record of globals,
  every member function takes that record and returns the updated one, and a call that
  ends the process (\<open>fatal\<close>, \<open>guarantee\<close>, a failed \<open>assert\<close>, a call through a null
  pointer) returns \<open>Inl\<close> of the \<open>failure\<close> paired with the globals as they are at that
  moment. Calls into collaborators whose code lives in other files (the mutex, the event
  log buffers, the console, the OS path lookup and loader, the runtime objects and
  their metadata handle tables) are recorded, in program order, in the field
  \<open>effects\<close>, so the globals of an aborted call tell what it had done by then.
\<close>

subsection \<open>Data\<close>

type_synonym addr = nat

text \<open>A function pointer \<open>void f(Metadata*)\<close>, by its address.\<close>
type_synonym visitor = nat

record Thread =
  tid :: nat
  thread_name :: string

text \<open>
  What the calling thread brings along: \<open>Thread::current_or_null_safe()\<close> (\<open>None\<close> for
  a thread that is not attached) and whether it owns \<open>JVMCI_lock\<close>, which the
  assertion of \<open>get_shared_library\<close> reads.
\<close>
record caller =
  current :: "Thread option"
  owns_JVMCI_lock :: bool

text \<open>
  The VM flags the file reads, the constant \<open>max_EventLog_level\<close> (declared in
  jvmci.hpp, taken as a parameter here) and \<open>ASSERT\<close>, true in a debug build, where
  \<open>assert\<close> is compiled in.
\<close>
record vm_flags =
  LogEvents :: bool
  JVMCIEventLogLevel :: int
  JVMCITraceLevel :: int
  LogEventsBufferEntries :: nat
  UseJVMCINativeLibrary :: bool
  JVMCILibPath :: "string option"
  max_EventLog_level :: int
  ASSERT :: bool

text \<open>
  The operating system as \<open>get_shared_library\<close> sees it: \<open>os::dll_locate_lib\<close> gives
  the path it built or fails, \<open>os::dll_load\<close> gives a handle (\<open>None\<close> is \<open>NULL\<close>) and
  the text it left in \<open>ebuf\<close>.
\<close>
record os_env =
  get_dll_dir :: string
  JVMCI_SHARED_LIBRARY_NAME :: string
  dll_locate_lib :: "string \<Rightarrow> string \<Rightarrow> string option"
  dll_load :: "string \<Rightarrow> addr option \<times> string"

text \<open>
  Modelled from the spec: the constructor of \<open>JVMCIRuntime\<close> (jvmciRuntime.cpp) is
  not among the sources; a runtime is constructed with an integer role and owns one
  metadata handle table, which is identified with the runtime's address below.
\<close>
record JVMCIRuntime =
  runtime_id :: int

text \<open>
  Modelled from the spec: \<open>StringEventLog\<close> (events.hpp) is not among the sources; a
  channel has a name, a short handle and a capacity, an \<open>int\<close> of 32 bits.
\<close>
record StringEventLog =
  log_name :: string
  log_handle :: string
  log_count :: "32 word"

datatype effect =
    Mutex_lock
  | Mutex_unlock
  | Store_in_shutdown bool
  | Logv string "Thread option" string
  | Tty_print string
  | Tty_print_cr string
  | Dll_locate_lib string string
  | Dll_load string
  | Runtime_shutdown addr
  | Handles_metadata_do addr visitor
  | Handles_do_unloading addr

datatype failure =
    Fatal string
  | Guarantee_failed string
  | Assert_failed string
  | Null_dereference

record jvmci =
  compiler_runtime :: "addr option"
  java_runtime :: "addr option"
  is_initialized :: bool
  shared_library_handle :: "addr option"
  shared_library_path :: "string option"
  in_shutdown :: bool
  events :: "StringEventLog option"
  verbose_events :: "StringEventLog option"
  runtimes :: "JVMCIRuntime list"
  effects :: "effect list"

text \<open>How a call ends the process: the failure, and the globals at that moment.\<close>
type_synonym abort = "failure \<times> jvmci"

text \<open>The static initialisers of lines 36 to 43, over an empty heap of runtimes.\<close>
definition static_init :: jvmci where
  "static_init =
     \<lparr>compiler_runtime = None, java_runtime = None, is_initialized = False,
      shared_library_handle = None, shared_library_path = None, in_shutdown = False,
      events = None, verbose_events = None, runtimes = [], effects = []\<rparr>"

definition emit :: "effect \<Rightarrow> jvmci \<Rightarrow> jvmci" where
  "emit e s = s\<lparr>effects := effects s @ [e]\<rparr>"

text \<open>The runtime object an address holds, if any.\<close>
definition runtime_at :: "jvmci \<Rightarrow> addr \<Rightarrow> JVMCIRuntime option" where
  "runtime_at s a = (if a < length (runtimes s) then Some (runtimes s ! a) else None)"

subsection \<open>initialize_globals\<close>

text \<open>\<open>new JVMCIRuntime(id)\<close>: a fresh address, one past every address in use.\<close>
definition new_JVMCIRuntime :: "int \<Rightarrow> jvmci \<Rightarrow> addr \<times> jvmci" where
  "new_JVMCIRuntime i s =
     (length (runtimes s), s\<lparr>runtimes := runtimes s @ [\<lparr>runtime_id = i\<rparr>]\<rparr>)"

text \<open>
  Modelled from the spec: the constructor's third parameter defaults to the base
  capacity \<open>LogEventsBufferEntries\<close> (events.hpp, not among the sources).
\<close>
definition new_StringEventLog :: "string \<Rightarrow> string \<Rightarrow> 32 word \<Rightarrow> StringEventLog" where
  "new_StringEventLog n h c = \<lparr>log_name = n, log_handle = h, log_count = c\<rparr>"

text \<open>
  The loop of lines 109 to 112, entered with \<open>i = 1\<close>. The counter \<open>i\<close> never passes
  \<open>max_EventLog_level\<close>; \<open>count\<close> is a 32-bit \<open>int\<close>, multiplied with wrap-around.
\<close>
function expand_count :: "int \<Rightarrow> int \<Rightarrow> int \<Rightarrow> 32 word \<Rightarrow> 32 word" where
  "expand_count i level maxl count =
     (if i < level \<and> i < maxl then expand_count (i + 1) level maxl (count * 10) else count)"
  by pat_completeness auto
termination
  by (relation "measure (\<lambda>(i, level, maxl, count). nat (maxl - i))") auto

declare expand_count.simps [simp del]

definition initialize_events :: "vm_flags \<Rightarrow> jvmci \<Rightarrow> jvmci" where
  "initialize_events fl s =
     (if LogEvents fl then
        (if JVMCIEventLogLevel fl > 0 then
           (let s1 = s\<lparr>events := Some (new_StringEventLog ''JVMCI Events'' ''jvmci''
                                       (of_nat (LogEventsBufferEntries fl)))\<rparr>
            in if JVMCIEventLogLevel fl > 1 then
                 (let count = expand_count 1 (JVMCIEventLogLevel fl) (max_EventLog_level fl)
                                (of_nat (LogEventsBufferEntries fl))
                  in s1\<lparr>verbose_events :=
                          Some (new_StringEventLog ''Verbose JVMCI Events'' ''verbose-jvmci'' count)\<rparr>)
               else s1)
         else s)
      else s)"

definition initialize_runtimes :: "vm_flags \<Rightarrow> jvmci \<Rightarrow> jvmci" where
  "initialize_runtimes fl s =
     (if UseJVMCINativeLibrary fl then
        (let (c, s1) = new_JVMCIRuntime 0 s;
             s2 = s1\<lparr>compiler_runtime := Some c\<rparr>;
             (j, s3) = new_JVMCIRuntime (- 1) s2
         in s3\<lparr>java_runtime := Some j\<rparr>)
      else
        (let (r, s1) = new_JVMCIRuntime 0 s;
             s2 = s1\<lparr>compiler_runtime := Some r\<rparr>
         in s2\<lparr>java_runtime := compiler_runtime s2\<rparr>))"

text \<open>
  \<open>jvmci_vmStructs_init\<close> is a debug-only self check with no effect on the globals; the
  rest is lines 104 to 124: first the event channels, then the runtimes.
\<close>
definition initialize_globals :: "vm_flags \<Rightarrow> jvmci \<Rightarrow> jvmci" where
  "initialize_globals fl s = initialize_runtimes fl (initialize_events fl s)"

subsection \<open>The event log and the trace\<close>

text \<open>
  In all of the logging functions the string \<open>msg\<close> stands for the format applied to
  its arguments. \<open>vlog\<close> hands it to \<open>logv\<close> of the selected channel, recorded as
  \<open>Logv\<close> with the channel's handle; \<open>guarantee\<close> ends the process when that channel
  was never constructed, before \<open>logv\<close> is called.
\<close>
definition vlog :: "vm_flags \<Rightarrow> Thread option \<Rightarrow> int \<Rightarrow> string \<Rightarrow> jvmci \<Rightarrow> abort + jvmci" where
  "vlog fl thread level msg s =
     (if LogEvents fl \<and> JVMCIEventLogLevel fl \<ge> level then
        (case (if level = 1 then events s else verbose_events s) of
           None \<Rightarrow> Inl (Guarantee_failed ''JVMCI event log not yet initialized'', s)
         | Some log \<Rightarrow> Inr (emit (Logv (log_handle log) thread msg) s))
      else Inr s)"

text \<open>What \<open>%d\<close> prints for an \<open>int\<close>.\<close>
fun digits :: "nat \<Rightarrow> string" where
  "digits n =
     (if n < 10 then [''0123456789'' ! n]
      else digits (n div 10) @ [''0123456789'' ! (n mod 10)])"

declare digits.simps [simp del]

definition decimal :: "int \<Rightarrow> string" where
  "decimal i = (if i < 0 then ''-'' @ digits (nat (- i)) else digits (nat i))"

text \<open>
  What \<open>%*c\<close> prints for a width and a blank: the blank in a field of that width (a
  negative width asks for left justification in a field of its absolute value).
\<close>
definition pad :: "int \<Rightarrow> string" where
  "pad w = replicate (max 1 (nat \<bar>w\<bar>)) CHR '' ''"

text \<open>
  The text of the first \<open>print\<close> of \<open>vtrace\<close>: with the thread's name when there is a
  current thread, with a question mark otherwise.
\<close>
definition trace_prefix :: "Thread option \<Rightarrow> int \<Rightarrow> string" where
  "trace_prefix thread level =
     (case thread of
        Some t \<Rightarrow> ''JVMCITrace-'' @ decimal level @ ''['' @ thread_name t @ '']:'' @ pad level
      | None \<Rightarrow> ''JVMCITrace-'' @ decimal level @ ''[?]:'' @ pad level)"

definition vtrace :: "vm_flags \<Rightarrow> Thread option \<Rightarrow> int \<Rightarrow> string \<Rightarrow> jvmci \<Rightarrow> jvmci" where
  "vtrace fl thread level msg s =
     (if JVMCITraceLevel fl \<ge> level then
        (let s1 = emit (Tty_print (trace_prefix thread level)) s
         in emit (Tty_print_cr msg) s1)
      else s)"

text \<open>The macro \<open>LOG_TRACE\<close>: \<open>vlog\<close>, then \<open>vtrace\<close>, at the same level.\<close>
definition LOG_TRACE :: "vm_flags \<Rightarrow> Thread option \<Rightarrow> int \<Rightarrow> string \<Rightarrow> jvmci \<Rightarrow> abort + jvmci" where
  "LOG_TRACE fl thread level msg s =
     (case vlog fl thread level msg s of
        Inl e \<Rightarrow> Inl e
      | Inr s1 \<Rightarrow> Inr (vtrace fl thread level msg s1))"

definition event :: "vm_flags \<Rightarrow> Thread option \<Rightarrow> int \<Rightarrow> string \<Rightarrow> jvmci \<Rightarrow> abort + jvmci" where
  "event fl thread level msg s = LOG_TRACE fl thread level msg s"

definition event1 :: "vm_flags \<Rightarrow> Thread option \<Rightarrow> string \<Rightarrow> jvmci \<Rightarrow> abort + jvmci" where
  "event1 fl thread msg s = LOG_TRACE fl thread 1 msg s"

definition event2 :: "vm_flags \<Rightarrow> Thread option \<Rightarrow> string \<Rightarrow> jvmci \<Rightarrow> abort + jvmci" where
  "event2 fl thread msg s = LOG_TRACE fl thread 2 msg s"

definition event3 :: "vm_flags \<Rightarrow> Thread option \<Rightarrow> string \<Rightarrow> jvmci \<Rightarrow> abort + jvmci" where
  "event3 fl thread msg s = LOG_TRACE fl thread 3 msg s"

definition event4 :: "vm_flags \<Rightarrow> Thread option \<Rightarrow> string \<Rightarrow> jvmci \<Rightarrow> abort + jvmci" where
  "event4 fl thread msg s = LOG_TRACE fl thread 4 msg s"

text \<open>
  Modelled from the spec: the macro \<open>JVMCI_event_1\<close> (jvmci.hpp) is not among the
  sources; it emits a level-1 event, which is a call of \<open>event1\<close>.
\<close>
definition JVMCI_event_1 :: "vm_flags \<Rightarrow> Thread option \<Rightarrow> string \<Rightarrow> jvmci \<Rightarrow> abort + jvmci" where
  "JVMCI_event_1 fl thread msg s = event1 fl thread msg s"

subsection \<open>get_shared_library\<close>

text \<open>
  Lines 70 to 78: \<open>os::dll_locate_lib\<close> is called once, with the directory of the
  branch taken, and the call is recorded as \<open>Dll_locate_lib\<close>; the result is the path
  it built, or the fatal error of that branch.
\<close>
definition locate_shared_library :: "vm_flags \<Rightarrow> os_env \<Rightarrow> jvmci \<Rightarrow> abort + (string \<times> jvmci)" where
  "locate_shared_library fl os s =
     (case JVMCILibPath fl of
        Some lib_path \<Rightarrow>
          (let s1 = emit (Dll_locate_lib lib_path (JVMCI_SHARED_LIBRARY_NAME os)) s
           in case dll_locate_lib os lib_path (JVMCI_SHARED_LIBRARY_NAME os) of
                None \<Rightarrow> Inl (Fatal (''Unable to create path to JVMCI shared library based on value of JVMCILibPath (''
                                   @ lib_path @ '')''), s1)
              | Some p \<Rightarrow> Inr (p, s1))
      | None \<Rightarrow>
          (let s1 = emit (Dll_locate_lib (get_dll_dir os) (JVMCI_SHARED_LIBRARY_NAME os)) s
           in case dll_locate_lib os (get_dll_dir os) (JVMCI_SHARED_LIBRARY_NAME os) of
                None \<Rightarrow> Inl (Fatal ''Unable to create path to JVMCI shared library'', s1)
              | Some p \<Rightarrow> Inr (p, s1)))"

text \<open>
  The result is the returned handle paired with the value left in the reference
  parameter \<open>path\<close>. The call of \<open>os::dll_load\<close> is recorded as \<open>Dll_load\<close>, whether
  it gives a handle or not.
\<close>
definition get_shared_library ::
  "vm_flags \<Rightarrow> os_env \<Rightarrow> caller \<Rightarrow> bool \<Rightarrow> jvmci
     \<Rightarrow> abort + ((addr option \<times> string option) \<times> jvmci)" where
  "get_shared_library fl os clr load s =
     (let sl_handle = shared_library_handle s in
      if sl_handle \<noteq> None \<or> \<not> load then Inr ((sl_handle, shared_library_path s), s)
      else if ASSERT fl \<and> \<not> owns_JVMCI_lock clr then Inl (Assert_failed ''must be'', s)
      else if shared_library_handle s = None then
        (case locate_shared_library fl os s of
           Inl e \<Rightarrow> Inl e
         | Inr (p, s0) \<Rightarrow>
             (let (handle, ebuf) = dll_load os p;
                  s1 = emit (Dll_load p) s0
              in case handle of
                   None \<Rightarrow> Inl (Fatal (''Unable to load JVMCI shared library from '' @ p @ '': '' @ ebuf),
                                s1)
                 | Some h \<Rightarrow>
                     (let s2 = s1\<lparr>shared_library_handle := Some h\<rparr>;
                          s3 = s2\<lparr>shared_library_path := Some p\<rparr>
                      in case JVMCI_event_1 fl (current clr)
                                (''loaded JVMCI shared library from '' @ p) s3 of
                           Inl e \<Rightarrow> Inl e
                         | Inr s4 \<Rightarrow>
                             Inr ((shared_library_handle s4, shared_library_path s4), s4))))
      else Inr ((shared_library_handle s, shared_library_path s), s))"

text \<open>A process that calls \<open>get_shared_library\<close> once for each element of a list.\<close>
fun get_shared_library_calls ::
  "vm_flags \<Rightarrow> os_env \<Rightarrow> (caller \<times> bool) list \<Rightarrow> jvmci
     \<Rightarrow> abort + ((addr option \<times> string option) list \<times> jvmci)" where
  "get_shared_library_calls fl os [] s = Inr ([], s)"
| "get_shared_library_calls fl os ((clr, load) # cs) s =
     (case get_shared_library fl os clr load s of
        Inl e \<Rightarrow> Inl e
      | Inr (r, s1) \<Rightarrow>
          (case get_shared_library_calls fl os cs s1 of
             Inl e \<Rightarrow> Inl e
           | Inr (rs, s2) \<Rightarrow> Inr (r # rs, s2)))"

text \<open>How often \<open>os::dll_load\<close> was called.\<close>
definition loads :: "jvmci \<Rightarrow> nat" where
  "loads s = length (filter (\<lambda>e. case e of Dll_load p \<Rightarrow> True | _ \<Rightarrow> False) (effects s))"

subsection \<open>shutdown\<close>

text \<open>
  Modelled from the spec: \<open>JVMCIRuntime::shutdown\<close> (jvmciRuntime.cpp) is not among
  the sources; shutting a handle down is delegated entirely to the handle, so the call
  is recorded. A call through a null pointer ends the process.
\<close>
definition JVMCIRuntime_shutdown :: "addr option \<Rightarrow> jvmci \<Rightarrow> abort + jvmci" where
  "JVMCIRuntime_shutdown r s =
     (case r of
        None \<Rightarrow> Inl (Null_dereference, s)
      | Some a \<Rightarrow> Inr (emit (Runtime_shutdown a) s))"

text \<open>
  Lines 164 to 178. The \<open>MutexLocker\<close> block takes \<open>JVMCI_lock\<close> and gives it up at its
  closing brace; the store to the volatile flag is recorded as well as performed.
\<close>
definition shutdown :: "vm_flags \<Rightarrow> Thread option \<Rightarrow> jvmci \<Rightarrow> abort + jvmci" where
  "shutdown fl thread s =
     (let s1 = emit Mutex_lock s;
          s2 = emit (Store_in_shutdown True) (s1\<lparr>in_shutdown := True\<rparr>)
      in case JVMCI_event_1 fl thread ''shutting down JVMCI'' s2 of
           Inl e \<Rightarrow> Inl e
         | Inr s3 \<Rightarrow>
             (let s4 = emit Mutex_unlock s3;
                  java = java_runtime s4
              in case (if java \<noteq> compiler_runtime s4 then JVMCIRuntime_shutdown java s4
                       else Inr s4) of
                   Inl e \<Rightarrow> Inl e
                 | Inr s5 \<Rightarrow>
                     (if compiler_runtime s5 \<noteq> None
                      then JVMCIRuntime_shutdown (compiler_runtime s5) s5
                      else Inr s5)))"

text \<open>The calls of \<open>JVMCIRuntime::shutdown\<close> in a list of effects, in order.\<close>
definition shutdowns :: "effect list \<Rightarrow> addr list" where
  "shutdowns es = concat (map (\<lambda>e. case e of Runtime_shutdown a \<Rightarrow> [a] | _ \<Rightarrow> []) es)"

subsection \<open>metadata_do and do_unloading\<close>

text \<open>
  Modelled from the spec: \<open>MetadataHandles\<close> (metadataHandles.hpp) is not among the
  sources; each runtime owns one table, so \<open>r->_metadata_handles->metadata_do(f)\<close> and
  \<open>r->_metadata_handles->do_unloading()\<close> are recorded under the address of \<open>r\<close>.
\<close>
definition metadata_do :: "visitor \<Rightarrow> jvmci \<Rightarrow> jvmci" where
  "metadata_do f s =
     (let s1 = (case java_runtime s of
                  Some j \<Rightarrow> emit (Handles_metadata_do j f) s
                | None \<Rightarrow> s)
      in case compiler_runtime s1 of
           Some c \<Rightarrow>
             (if compiler_runtime s1 \<noteq> java_runtime s1
              then emit (Handles_metadata_do c f) s1 else s1)
         | None \<Rightarrow> s1)"

definition do_unloading :: "bool \<Rightarrow> jvmci \<Rightarrow> jvmci" where
  "do_unloading unloading_occurred s =
     (if unloading_occurred then
        (let s1 = (case java_runtime s of
                     Some j \<Rightarrow> emit (Handles_do_unloading j) s
                   | None \<Rightarrow> s)
         in case compiler_runtime s1 of
              Some c \<Rightarrow>
                (if compiler_runtime s1 \<noteq> java_runtime s1
                 then emit (Handles_do_unloading c) s1 else s1)
            | None \<Rightarrow> s1)
      else s)"

text \<open>The tables visited, and the tables purged, in a list of effects, in order.\<close>
definition visited :: "effect list \<Rightarrow> addr list" where
  "visited es = concat (map (\<lambda>e. case e of Handles_metadata_do a f \<Rightarrow> [a] | _ \<Rightarrow> []) es)"

definition purged :: "effect list \<Rightarrow> addr list" where
  "purged es = concat (map (\<lambda>e. case e of Handles_do_unloading a \<Rightarrow> [a] | _ \<Rightarrow> []) es)"

subsection \<open>compilation_tick\<close>

text \<open>
  The objects \<open>compilation_tick\<close> reaches live outside the class: threads, compile
  tasks and compile states, each in a store indexed by address. The argument is a
  reference to a live thread (the code calls through it unconditionally); the task of
  a thread and the state of a task may be \<open>NULL\<close>.
\<close>
record JavaThread =
  is_Compiler_thread :: bool
  task :: "addr option"

record CompileTask =
  blocking_jvmci_compile_state :: "addr option"

record JVMCICompileState =
  compilation_ticks :: int

record compile_heap =
  threads :: "addr \<Rightarrow> JavaThread"
  tasks :: "addr \<Rightarrow> CompileTask"
  compile_states :: "addr \<Rightarrow> JVMCICompileState"

text \<open>
  Modelled from the spec: \<open>JVMCICompileState::inc_compilation_ticks\<close> (jvmciEnv) is
  not among the sources; it increments the state's tick counter by one.
\<close>
definition inc_compilation_ticks :: "JVMCICompileState \<Rightarrow> JVMCICompileState" where
  "inc_compilation_ticks st = st\<lparr>compilation_ticks := compilation_ticks st + 1\<rparr>"

definition compilation_tick :: "addr \<Rightarrow> compile_heap \<Rightarrow> addr \<times> compile_heap" where
  "compilation_tick thread h =
     (let h1 = (if is_Compiler_thread (threads h thread) then
                  (case task (threads h thread) of
                     Some k \<Rightarrow>
                       (case blocking_jvmci_compile_state (tasks h k) of
                          Some st \<Rightarrow>
                            h\<lparr>compile_states :=
                                (compile_states h)(st := inc_compilation_ticks (compile_states h st))\<rparr>
                        | None \<Rightarrow> h)
                   | None \<Rightarrow> h)
                else h)
      in (thread, h1))"

subsection \<open>Concrete configurations\<close>

text \<open>
  A VM with event logging at level 3, tracing at level 1, the default base capacity of
  20 entries, four supported event-log levels and a single runtime.
\<close>
definition example_flags :: vm_flags where
  "example_flags =
     \<lparr>LogEvents = True, JVMCIEventLogLevel = 3, JVMCITraceLevel = 1,
      LogEventsBufferEntries = 20, UseJVMCINativeLibrary = False, JVMCILibPath = None,
      max_EventLog_level = 4, ASSERT = True\<rparr>"

text \<open>The same VM in native-library mode, with two runtimes.\<close>
definition example_flags_native :: vm_flags where
  "example_flags_native = example_flags\<lparr>UseJVMCINativeLibrary := True\<rparr>"

text \<open>An attached thread that owns \<open>JVMCI_lock\<close>.\<close>
definition example_thread :: Thread where
  "example_thread = \<lparr>tid = 7, thread_name = ''main''\<rparr>"

definition example_caller :: caller where
  "example_caller = \<lparr>current = Some example_thread, owns_JVMCI_lock = True\<rparr>"

text \<open>The part of the globals that says which runtimes exist and who refers to them.\<close>
definition registry :: "jvmci \<Rightarrow> addr option \<times> addr option \<times> JVMCIRuntime list" where
  "registry s = (compiler_runtime s, java_runtime s, runtimes s)"

text \<open>
  A store with one compiler thread, at address 1, bound to the task at address 5,
  whose blocking compile state is at address 9; every other thread is not a compiler
  thread, every other task has no state, and all counters are 0.
\<close>
definition example_heap :: compile_heap where
  "example_heap =
     \<lparr>threads = (\<lambda>a. if a = 1 then \<lparr>is_Compiler_thread = True, task = Some 5\<rparr>
                     else \<lparr>is_Compiler_thread = False, task = None\<rparr>),
      tasks = (\<lambda>k. \<lparr>blocking_jvmci_compile_state = (if k = 5 then Some 9 else None)\<rparr>),
      compile_states = (\<lambda>a. \<lparr>compilation_ticks = 0\<rparr>)\<rparr>"

text \<open>The same VM with the event log at level 1: only the coarse channel is constructed.\<close>
definition example_flags_coarse :: vm_flags where
  "example_flags_coarse = example_flags\<lparr>JVMCIEventLogLevel := 1\<rparr>"


text \<open>
  An operating system where the library is found next to the VM's own libraries and
  loads, and one where no path can be built and nothing loads.
\<close>
definition example_os :: os_env where
  "example_os =
     \<lparr>get_dll_dir = ''/opt/jdk/lib'', JVMCI_SHARED_LIBRARY_NAME = ''jvmcicompiler'',
      dll_locate_lib = (\<lambda>dir name. Some (dir @ ''/lib'' @ name @ ''.so'')),
      dll_load = (\<lambda>p. (Some 4096, ''''))\<rparr>"

definition example_os_broken :: os_env where
  "example_os_broken =
     \<lparr>get_dll_dir = ''/opt/jdk/lib'', JVMCI_SHARED_LIBRARY_NAME = ''jvmcicompiler'',
      dll_locate_lib = (\<lambda>dir name. None),
      dll_load = (\<lambda>p. (None, ''cannot open shared object file''))\<rparr>"

text \<open>A thread that asks without loading, loads twice, and asks again.\<close>
definition example_calls :: "(caller \<times> bool) list" where
  "example_calls =
     [(example_caller, False), (example_caller, True), (example_caller, True),
      (example_caller, False)]"

text \<open>An operating system where the path is built but the loader fails.\<close>
definition example_os_noload :: os_env where
  "example_os_noload = example_os\<lparr>dll_load := (\<lambda>p. (None, ''cannot open shared object file''))\<rparr>"

text \<open>The VM in native-library mode with a configured search directory.\<close>
definition example_flags_libpath :: vm_flags where
  "example_flags_libpath = example_flags_native\<lparr>JVMCILibPath := Some ''/graal''\<rparr>"

section \<open>Properties\<close>

subsection \<open>The capacity of the verbose channel\<close>

lemma expand_count_power:
  "expand_count i level maxl c = c * 10 ^ nat (min level maxl - i)"
proof (induction i level maxl c rule: expand_count.induct)
  case (1 i level maxl count)
  show ?case
  proof (cases "i < level \<and> i < maxl")
    case True
    then have "0 < min level maxl - i" by simp
    then have k: "nat (min level maxl - i) = Suc (nat (min level maxl - (i + 1)))"
      by (simp add: Suc_nat_eq_nat_zadd1 algebra_simps)
    have "expand_count i level maxl count = expand_count (i + 1) level maxl (count * 10)"
      using True by (simp add: expand_count.simps [of i])
    also have "\<dots> = count * 10 * 10 ^ nat (min level maxl - (i + 1))"
      using 1 True by simp
    finally show ?thesis
      by (simp add: k mult.assoc)
  next
    case False
    then have "nat (min level maxl - i) = 0" by auto
    moreover have "expand_count i level maxl count = count"
      using False by (subst expand_count.simps) (simp only: if_False)
    ultimately show ?thesis by simp
  qed
qed

lemma verbose_events_initialize_globals:
  "verbose_events (initialize_globals fl s) = verbose_events (initialize_events fl s)"
  by (simp add: initialize_globals_def initialize_runtimes_def new_JVMCIRuntime_def Let_def)

lemma sint_of_small:
  fixes n :: int
  assumes "0 \<le> n" "n < 2 ^ 31"
  shows "sint (word_of_int n :: 32 word) = n"
  using assms by (simp add: sint_sbintrunc' signed_take_bit_int_eq_self)

text \<open>
  C7: with logging enabled and a configured log level \<open>L > 1\<close>, \<open>initialize_globals\<close>
  constructs the verbose channel with capacity \<open>B * 10 ^ (min L max - 1)\<close>, where \<open>B\<close>
  is \<open>LogEventsBufferEntries\<close> and \<open>max\<close> is \<open>max_EventLog_level\<close>: ten times the base
  for each level above 1, the exponent stopping at \<open>max - 1\<close>. The equation holds in the
  32-bit arithmetic of \<open>count\<close>, and between the integers whenever the product fits an
  \<open>int\<close>.
\<close>
theorem C7_verbose_capacity:
  assumes "LogEvents fl" and "1 < JVMCIEventLogLevel fl"
  shows "\<exists>log. verbose_events (initialize_globals fl s) = Some log
           \<and> log_count log
               = of_nat (LogEventsBufferEntries fl)
                   * 10 ^ nat (min (JVMCIEventLogLevel fl) (max_EventLog_level fl) - 1)
           \<and> (int (LogEventsBufferEntries fl)
                 * 10 ^ nat (min (JVMCIEventLogLevel fl) (max_EventLog_level fl) - 1) < 2 ^ 31
               \<longrightarrow> sint (log_count log)
                     = int (LogEventsBufferEntries fl)
                         * 10 ^ nat (min (JVMCIEventLogLevel fl) (max_EventLog_level fl) - 1))"
proof -
  let ?k = "nat (min (JVMCIEventLogLevel fl) (max_EventLog_level fl) - 1)"
  let ?B = "LogEventsBufferEntries fl"
  let ?log = "new_StringEventLog ''Verbose JVMCI Events'' ''verbose-jvmci''
                (of_nat ?B * 10 ^ ?k)"
  have v: "verbose_events (initialize_globals fl s) = Some ?log"
    using assms
    by (simp add: verbose_events_initialize_globals initialize_events_def Let_def
        expand_count_power)
  have c: "log_count ?log = of_nat ?B * 10 ^ ?k"
    by (simp add: new_StringEventLog_def)
  have "sint (log_count ?log) = int ?B * 10 ^ ?k" if "int ?B * 10 ^ ?k < 2 ^ 31"
  proof -
    have "(of_nat ?B * 10 ^ ?k :: 32 word) = word_of_int (int ?B * 10 ^ ?k)"
      by simp
    then show ?thesis
      using that sint_of_small [of "int ?B * 10 ^ ?k"] by (simp add: c)
  qed
  with v c show ?thesis by blast
qed

theorem C7_verbose_capacity_witness:
  "LogEvents example_flags \<and> 1 < JVMCIEventLogLevel example_flags
   \<and> (\<exists>log. verbose_events (initialize_globals example_flags static_init) = Some log
          \<and> log_count log = 2000 \<and> sint (log_count log) = 2000)"
  using C7_verbose_capacity [of example_flags static_init]
  by (simp add: example_flags_def)

subsection \<open>The runtime registry\<close>

lemma registry_emit [simp]: "registry (emit e s) = registry s"
  by (simp add: registry_def emit_def)

lemma registry_vlog: "vlog fl t l m s = Inr s' \<Longrightarrow> registry s' = registry s"
  by (auto simp: vlog_def split: if_splits option.splits)

lemma registry_vtrace [simp]: "registry (vtrace fl t l m s) = registry s"
  by (simp add: vtrace_def Let_def)

lemma registry_LOG_TRACE: "LOG_TRACE fl t l m s = Inr s' \<Longrightarrow> registry s' = registry s"
  by (auto simp: LOG_TRACE_def split: sum.splits dest: registry_vlog)

lemma registry_event_1: "JVMCI_event_1 fl t m s = Inr s' \<Longrightarrow> registry s' = registry s"
  by (simp add: JVMCI_event_1_def event1_def registry_LOG_TRACE)

lemma registry_JVMCIRuntime_shutdown:
  "JVMCIRuntime_shutdown r s = Inr s' \<Longrightarrow> registry s' = registry s"
  by (auto simp: JVMCIRuntime_shutdown_def split: option.splits)

lemma registry_shutdown:
  assumes "shutdown fl t s = Inr s'"
  shows "registry s' = registry s"
proof -
  let ?s2 = "emit (Store_in_shutdown True) (emit Mutex_lock s\<lparr>in_shutdown := True\<rparr>)"
  have r2: "registry ?s2 = registry s"
    by (simp add: registry_def emit_def)
  from assms obtain s3 where e: "JVMCI_event_1 fl t ''shutting down JVMCI'' ?s2 = Inr s3"
    by (auto simp: shutdown_def Let_def split: sum.splits)
  then have r3: "registry s3 = registry s"
    using registry_event_1 r2 by metis
  from assms e obtain s5 where
    j: "(if java_runtime (emit Mutex_unlock s3) \<noteq> compiler_runtime (emit Mutex_unlock s3)
         then JVMCIRuntime_shutdown (java_runtime (emit Mutex_unlock s3)) (emit Mutex_unlock s3)
         else Inr (emit Mutex_unlock s3)) = Inr s5"
    and c: "(if compiler_runtime s5 \<noteq> None then JVMCIRuntime_shutdown (compiler_runtime s5) s5
            else Inr s5) = Inr s'"
    by (auto simp: shutdown_def Let_def split: sum.splits)
  from j have r5: "registry s5 = registry s"
    using r3 by (auto split: if_splits dest: registry_JVMCIRuntime_shutdown)
  from c show ?thesis
    using r5 by (auto split: if_splits dest: registry_JVMCIRuntime_shutdown)
qed

lemma registry_metadata_do [simp]: "registry (metadata_do f s) = registry s"
  by (simp add: metadata_do_def Let_def split: option.splits)

lemma registry_do_unloading [simp]: "registry (do_unloading u s) = registry s"
  by (simp add: do_unloading_def Let_def split: option.splits)

lemma registry_locate_shared_library:
  "locate_shared_library fl os s = Inr (p, s0) \<Longrightarrow> registry s0 = registry s"
  by (auto simp: locate_shared_library_def Let_def split: option.splits)

lemma registry_get_shared_library:
  assumes "get_shared_library fl os clr load s = Inr (r, s')"
  shows "registry s' = registry s"
proof (cases "shared_library_handle s \<noteq> None \<or> \<not> load")
  case True
  with assms show ?thesis by (auto simp: get_shared_library_def)
next
  case False
  with assms obtain p s0 h where
    l: "locate_shared_library fl os s = Inr (p, s0)"
    and e: "JVMCI_event_1 fl (current clr) (''loaded JVMCI shared library from '' @ p)
       (emit (Dll_load p) s0\<lparr>shared_library_handle := Some h, shared_library_path := Some p\<rparr>)
     = Inr s'"
    by (auto simp: get_shared_library_def Let_def
        split: if_splits sum.splits option.splits prod.splits)
  from e have "registry s'
      = registry (emit (Dll_load p) s0\<lparr>shared_library_handle := Some h, shared_library_path := Some p\<rparr>)"
    by (rule registry_event_1)
  then have "registry s' = registry s0"
    by (simp add: registry_def emit_def)
  with registry_locate_shared_library [OF l] show ?thesis by simp
qed

lemma initialize_events_registry:
  "registry (initialize_events fl s) = registry s"
  by (simp add: initialize_events_def registry_def Let_def)

text \<open>
  C1: \<open>initialize_globals\<close> builds the registry from the switch \<open>UseJVMCINativeLibrary\<close>.
  Without it, one runtime is constructed, with role 0, and both references hold its
  address. With it, two runtimes are constructed at different addresses, the one
  \<open>compiler_runtime\<close> refers to with role 0 and the one \<open>java_runtime\<close> refers to with
  role -1. No other member function assigns the references or constructs a runtime:
  \<open>metadata_do\<close>, \<open>do_unloading\<close>, \<open>shutdown\<close>, \<open>get_shared_library\<close> and \<open>event\<close> leave
  the registry as it is.
\<close>
theorem C1_initialize_globals_registry:
  "(let s' = initialize_globals fl s; n = length (runtimes s) in
     (\<not> UseJVMCINativeLibrary fl \<longrightarrow>
        runtimes s' = runtimes s @ [\<lparr>runtime_id = 0\<rparr>]
        \<and> compiler_runtime s' = Some n \<and> java_runtime s' = Some n
        \<and> runtime_at s' n = Some \<lparr>runtime_id = 0\<rparr>)
     \<and> (UseJVMCINativeLibrary fl \<longrightarrow>
        runtimes s' = runtimes s @ [\<lparr>runtime_id = 0\<rparr>, \<lparr>runtime_id = - 1\<rparr>]
        \<and> compiler_runtime s' = Some n \<and> java_runtime s' = Some (n + 1)
        \<and> compiler_runtime s' \<noteq> java_runtime s'
        \<and> runtime_at s' n = Some \<lparr>runtime_id = 0\<rparr>
        \<and> runtime_at s' (n + 1) = Some \<lparr>runtime_id = - 1\<rparr>))
   \<and> (\<forall>f. registry (metadata_do f s) = registry s)
   \<and> (\<forall>u. registry (do_unloading u s) = registry s)
   \<and> (\<forall>t s'. shutdown fl t s = Inr s' \<longrightarrow> registry s' = registry s)
   \<and> (\<forall>os clr load r s'. get_shared_library fl os clr load s = Inr (r, s')
         \<longrightarrow> registry s' = registry s)
   \<and> (\<forall>t l m s'. event fl t l m s = Inr s' \<longrightarrow> registry s' = registry s)"
proof -
  have r: "registry (initialize_events fl s) = registry s"
    by (rule initialize_events_registry)
  then have rs: "runtimes (initialize_events fl s) = runtimes s"
    by (simp add: registry_def)
  have single: "runtimes (initialize_globals fl s) = runtimes s @ [\<lparr>runtime_id = 0\<rparr>]
      \<and> compiler_runtime (initialize_globals fl s) = Some (length (runtimes s))
      \<and> java_runtime (initialize_globals fl s) = Some (length (runtimes s))
      \<and> runtime_at (initialize_globals fl s) (length (runtimes s)) = Some \<lparr>runtime_id = 0\<rparr>"
    if "\<not> UseJVMCINativeLibrary fl"
    using that rs
    by (simp add: initialize_globals_def initialize_runtimes_def new_JVMCIRuntime_def
        runtime_at_def Let_def)
  have dual: "runtimes (initialize_globals fl s)
        = runtimes s @ [\<lparr>runtime_id = 0\<rparr>, \<lparr>runtime_id = - 1\<rparr>]
      \<and> compiler_runtime (initialize_globals fl s) = Some (length (runtimes s))
      \<and> java_runtime (initialize_globals fl s) = Some (length (runtimes s) + 1)
      \<and> compiler_runtime (initialize_globals fl s) \<noteq> java_runtime (initialize_globals fl s)
      \<and> runtime_at (initialize_globals fl s) (length (runtimes s)) = Some \<lparr>runtime_id = 0\<rparr>
      \<and> runtime_at (initialize_globals fl s) (length (runtimes s) + 1)
          = Some \<lparr>runtime_id = - 1\<rparr>"
    if "UseJVMCINativeLibrary fl"
    using that rs
    by (simp add: initialize_globals_def initialize_runtimes_def new_JVMCIRuntime_def
        runtime_at_def Let_def nth_append)
  show ?thesis
    using single dual registry_shutdown registry_get_shared_library
    by (auto simp: Let_def event_def dest: registry_LOG_TRACE)
qed

theorem C1_initialize_globals_registry_witness:
  "\<not> UseJVMCINativeLibrary example_flags
   \<and> compiler_runtime (initialize_globals example_flags static_init) = Some 0
   \<and> java_runtime (initialize_globals example_flags static_init) = Some 0
   \<and> runtime_at (initialize_globals example_flags static_init) 0 = Some \<lparr>runtime_id = 0\<rparr>
   \<and> UseJVMCINativeLibrary example_flags_native
   \<and> compiler_runtime (initialize_globals example_flags_native static_init) = Some 0
   \<and> java_runtime (initialize_globals example_flags_native static_init) = Some 1
   \<and> runtime_at (initialize_globals example_flags_native static_init) 0
       = Some \<lparr>runtime_id = 0\<rparr>
   \<and> runtime_at (initialize_globals example_flags_native static_init) 1
       = Some \<lparr>runtime_id = - 1\<rparr>"
  using C1_initialize_globals_registry [of example_flags static_init]
    C1_initialize_globals_registry [of example_flags_native static_init]
  by (simp add: example_flags_def example_flags_native_def static_init_def Let_def)

subsection \<open>The metadata bridge\<close>

text \<open>
  C4: when both references hold the same runtime, \<open>metadata_do\<close> visits that runtime's
  table once and \<open>do_unloading(true)\<close> purges it once; when they hold two different
  runtimes, the table of the java-role runtime is visited (purged) first and the table
  of the compiler-role runtime second, each once; nothing else in the globals changes.
  \<open>do_unloading(false)\<close> changes nothing.
\<close>
theorem C4_metadata_fan_out:
  "(\<forall>a. java_runtime s = Some a \<and> compiler_runtime s = Some a \<longrightarrow>
        metadata_do f s = s\<lparr>effects := effects s @ [Handles_metadata_do a f]\<rparr>
        \<and> do_unloading True s = s\<lparr>effects := effects s @ [Handles_do_unloading a]\<rparr>)
   \<and> (\<forall>j c. java_runtime s = Some j \<and> compiler_runtime s = Some c \<and> c \<noteq> j \<longrightarrow>
        metadata_do f s
          = s\<lparr>effects := effects s @ [Handles_metadata_do j f, Handles_metadata_do c f]\<rparr>
        \<and> do_unloading True s
          = s\<lparr>effects := effects s @ [Handles_do_unloading j, Handles_do_unloading c]\<rparr>)
   \<and> do_unloading False s = s"
  by (simp add: metadata_do_def do_unloading_def emit_def Let_def)

theorem C4_metadata_fan_out_witness:
  "java_runtime (initialize_globals example_flags static_init) = Some 0
   \<and> compiler_runtime (initialize_globals example_flags static_init) = Some 0
   \<and> visited (effects (metadata_do 3 (initialize_globals example_flags static_init))) = [0]
   \<and> purged (effects (do_unloading True (initialize_globals example_flags static_init))) = [0]
   \<and> java_runtime (initialize_globals example_flags_native static_init) = Some 1
   \<and> compiler_runtime (initialize_globals example_flags_native static_init) = Some 0
   \<and> visited (effects (metadata_do 3 (initialize_globals example_flags_native static_init)))
       = [1, 0]
   \<and> purged (effects (do_unloading True (initialize_globals example_flags_native static_init)))
       = [1, 0]
   \<and> do_unloading False (initialize_globals example_flags_native static_init)
       = initialize_globals example_flags_native static_init"
proof -
  let ?s = "initialize_globals example_flags static_init"
  let ?d = "initialize_globals example_flags_native static_init"
  have s: "java_runtime ?s = Some 0" "compiler_runtime ?s = Some 0" "effects ?s = []"
    by (simp_all add: initialize_globals_def initialize_runtimes_def initialize_events_def
        new_JVMCIRuntime_def example_flags_def static_init_def Let_def)
  have d: "java_runtime ?d = Some 1" "compiler_runtime ?d = Some 0" "effects ?d = []"
    by (simp_all add: initialize_globals_def initialize_runtimes_def initialize_events_def
        new_JVMCIRuntime_def example_flags_def example_flags_native_def static_init_def Let_def)
  show ?thesis
    using C4_metadata_fan_out [of ?s 3] C4_metadata_fan_out [of ?d 3] s d
    by (simp add: visited_def purged_def)
qed

text \<open>
  C10: while both runtime references are null, as they are before
  \<open>initialize_globals\<close>, \<open>metadata_do\<close> and \<open>do_unloading\<close> return with the globals
  unchanged: no table is visited or purged and no runtime is dereferenced.
\<close>
theorem C10_bridge_before_initialize:
  assumes "java_runtime s = None" and "compiler_runtime s = None"
  shows "metadata_do f s = s \<and> do_unloading u s = s"
  using assms by (simp add: metadata_do_def do_unloading_def Let_def)

theorem C10_bridge_before_initialize_witness:
  "java_runtime static_init = None \<and> compiler_runtime static_init = None
   \<and> metadata_do 3 static_init = static_init
   \<and> do_unloading True static_init = static_init
   \<and> do_unloading False static_init = static_init
   \<and> effects (metadata_do 3 static_init) = []"
proof -
  have n: "java_runtime static_init = None" "compiler_runtime static_init = None"
    by (simp_all add: static_init_def)
  have "effects static_init = []"
    by (simp add: static_init_def)
  then show ?thesis
    using n C10_bridge_before_initialize [OF n, of 3 True]
      C10_bridge_before_initialize [OF n, of 3 False]
    by simp
qed

subsection \<open>The compilation tick\<close>

text \<open>
  C9: \<open>compilation_tick\<close> returns the thread reference it was given and changes no
  thread and no task. If the thread is a compiler thread whose task is not null and
  whose task has a blocking compile state, that state's counter grows by one and every
  other compile state is unchanged; in every other case the whole store is unchanged.
\<close>
theorem C9_compilation_tick:
  "fst (compilation_tick thread h) = thread
   \<and> threads (snd (compilation_tick thread h)) = threads h
   \<and> tasks (snd (compilation_tick thread h)) = tasks h
   \<and> (\<forall>k st. is_Compiler_thread (threads h thread) \<and> task (threads h thread) = Some k
          \<and> blocking_jvmci_compile_state (tasks h k) = Some st \<longrightarrow>
          compilation_ticks (compile_states (snd (compilation_tick thread h)) st)
            = compilation_ticks (compile_states h st) + 1
          \<and> (\<forall>st'. st' \<noteq> st \<longrightarrow>
                compile_states (snd (compilation_tick thread h)) st' = compile_states h st'))
   \<and> (\<not> (\<exists>k st. is_Compiler_thread (threads h thread) \<and> task (threads h thread) = Some k
            \<and> blocking_jvmci_compile_state (tasks h k) = Some st) \<longrightarrow>
        snd (compilation_tick thread h) = h)"
  by (auto simp: compilation_tick_def inc_compilation_ticks_def Let_def split: option.splits)

theorem C9_compilation_tick_witness:
  "fst (compilation_tick 1 example_heap) = 1
   \<and> is_Compiler_thread (threads example_heap 1) \<and> task (threads example_heap 1) = Some 5
   \<and> blocking_jvmci_compile_state (tasks example_heap 5) = Some 9
   \<and> compilation_ticks (compile_states (snd (compilation_tick 1 example_heap)) 9) = 1
   \<and> compilation_ticks (compile_states (snd (compilation_tick 1 example_heap)) 8) = 0
   \<and> \<not> is_Compiler_thread (threads example_heap 2)
   \<and> fst (compilation_tick 2 example_heap) = 2
   \<and> snd (compilation_tick 2 example_heap) = example_heap"
proof -
  have a: "is_Compiler_thread (threads example_heap 1)" "task (threads example_heap 1) = Some 5"
    "blocking_jvmci_compile_state (tasks example_heap 5) = Some 9"
    "compilation_ticks (compile_states example_heap 9) = 0"
    "compilation_ticks (compile_states example_heap 8) = 0"
    "\<not> is_Compiler_thread (threads example_heap 2)"
    by (simp_all add: example_heap_def)
  show ?thesis
    using C9_compilation_tick [of 1 example_heap] C9_compilation_tick [of 2 example_heap] a
    by auto
qed

subsection \<open>The event log and the trace\<close>

lemma vlog_closed:
  assumes "\<not> (LogEvents fl \<and> level \<le> JVMCIEventLogLevel fl)"
  shows "vlog fl t level msg s = Inr s"
  using assms by (auto simp: vlog_def)

lemma vlog_open:
  assumes "LogEvents fl" and "level \<le> JVMCIEventLogLevel fl"
  shows "vlog fl t level msg s =
           (case (if level = 1 then events s else verbose_events s) of
              None \<Rightarrow> Inl (Guarantee_failed ''JVMCI event log not yet initialized'', s)
            | Some log \<Rightarrow> Inr (s\<lparr>effects := effects s @ [Logv (log_handle log) t msg]\<rparr>))"
  using assms by (auto simp: vlog_def emit_def split: option.splits)

lemma vtrace_effects:
  "vtrace fl t level msg s =
     s\<lparr>effects := effects s @
          (if level \<le> JVMCITraceLevel fl
           then [Tty_print (trace_prefix t level), Tty_print_cr msg] else [])\<rparr>"
  by (simp add: vtrace_def emit_def Let_def)

lemma LOG_TRACE_returns:
  assumes "LogEvents fl \<and> level \<le> JVMCIEventLogLevel fl
             \<longrightarrow> (if level = 1 then events s else verbose_events s) = Some log"
  shows "LOG_TRACE fl t level msg s =
           Inr (s\<lparr>effects := effects s @
                  (if LogEvents fl \<and> level \<le> JVMCIEventLogLevel fl
                   then [Logv (log_handle log) t msg] else []) @
                  (if level \<le> JVMCITraceLevel fl
                   then [Tty_print (trace_prefix t level), Tty_print_cr msg] else [])\<rparr>)"
proof (cases "LogEvents fl \<and> level \<le> JVMCIEventLogLevel fl")
  case True
  with assms have "vlog fl t level msg s
      = Inr (s\<lparr>effects := effects s @ [Logv (log_handle log) t msg]\<rparr>)"
    by (simp add: vlog_open)
  with True show ?thesis
    by (simp add: LOG_TRACE_def vtrace_effects)
next
  case False
  then have "vlog fl t level msg s = Inr s"
    by (rule vlog_closed)
  with False show ?thesis
    by (simp add: LOG_TRACE_def vtrace_effects)
qed

lemma LOG_TRACE_aborts:
  assumes "LogEvents fl" and "level \<le> JVMCIEventLogLevel fl"
    and "(if level = 1 then events s else verbose_events s) = None"
  shows "LOG_TRACE fl t level msg s
           = Inl (Guarantee_failed ''JVMCI event log not yet initialized'', s)"
  using assms by (simp add: LOG_TRACE_def vlog_open)

lemma events_initialize_globals:
  "events (initialize_globals fl s) = events (initialize_events fl s)"
  by (simp add: initialize_globals_def initialize_runtimes_def new_JVMCIRuntime_def Let_def)

lemma initialize_globals_channels:
  assumes "LogEvents fl" and "level \<le> JVMCIEventLogLevel fl" and "1 \<le> level"
  shows "(if level = 1 then events (initialize_globals fl s)
          else verbose_events (initialize_globals fl s)) \<noteq> None"
  using assms
  by (simp add: events_initialize_globals verbose_events_initialize_globals
      initialize_events_def Let_def)

text \<open>
  C6, amended: a call \<open>event(L, ...)\<close> made while the channel selected for \<open>L\<close> (the
  coarse one for \<open>L = 1\<close>, the verbose one otherwise) exists whenever the log gate is
  open returns; it appends one entry to that channel if and only if logging is enabled
  and the configured log level is at least \<open>L\<close>, and it prints one trace line if and
  only if the configured trace level is at least \<open>L\<close>, whatever the log gate says;
  nothing else changes. \<open>vtrace\<close> alone always returns, with the same trace output.
  After \<open>initialize_globals\<close> under the same flags the selected channel exists for every
  \<open>L \<ge> 1\<close> that passes the gate. When the gate is open and the selected channel was
  never constructed, the call ends the process on the \<open>guarantee\<close> with the globals,
  effects included, as they were on entry: nothing is logged and nothing is traced.
\<close>
theorem C6_event_gating:
  "((LogEvents fl \<and> level \<le> JVMCIEventLogLevel fl
       \<longrightarrow> (if level = 1 then events s else verbose_events s) = Some log) \<longrightarrow>
      event fl t level msg s =
        Inr (s\<lparr>effects := effects s @
               (if LogEvents fl \<and> level \<le> JVMCIEventLogLevel fl
                then [Logv (log_handle log) t msg] else []) @
               (if level \<le> JVMCITraceLevel fl
                then [Tty_print (trace_prefix t level), Tty_print_cr msg] else [])\<rparr>))
   \<and> vtrace fl t level msg s =
        s\<lparr>effects := effects s @
             (if level \<le> JVMCITraceLevel fl
              then [Tty_print (trace_prefix t level), Tty_print_cr msg] else [])\<rparr>
   \<and> (LogEvents fl \<and> level \<le> JVMCIEventLogLevel fl \<and> 1 \<le> level \<longrightarrow>
        (if level = 1 then events (initialize_globals fl s)
         else verbose_events (initialize_globals fl s)) \<noteq> None)
   \<and> (LogEvents fl \<and> level \<le> JVMCIEventLogLevel fl
        \<and> (if level = 1 then events s else verbose_events s) = None \<longrightarrow>
        event fl t level msg s
          = Inl (Guarantee_failed ''JVMCI event log not yet initialized'', s))"
  using LOG_TRACE_returns [of fl level s log t msg] LOG_TRACE_aborts [of fl level s t msg]
    initialize_globals_channels [of fl level s] vtrace_effects [of fl t level msg s]
  unfolding event_def by blast

theorem C6_event_gating_witness:
  "LogEvents example_flags \<and> 2 \<le> JVMCIEventLogLevel example_flags
   \<and> 1 \<le> JVMCITraceLevel example_flags \<and> \<not> 2 \<le> JVMCITraceLevel example_flags
   \<and> effects (initialize_globals example_flags static_init) = []
   \<and> map_sum id effects
       (event example_flags (Some example_thread) 1 ''hello''
          (initialize_globals example_flags static_init))
     = Inr [Logv ''jvmci'' (Some example_thread) ''hello'',
            Tty_print ''JVMCITrace-1[main]: '', Tty_print_cr ''hello'']
   \<and> map_sum id effects
       (event example_flags (Some example_thread) 2 ''hello''
          (initialize_globals example_flags static_init))
     = Inr [Logv ''verbose-jvmci'' (Some example_thread) ''hello'']
   \<and> map_sum id effects
       (event example_flags (Some example_thread) 4 ''hello''
          (initialize_globals example_flags static_init))
     = Inr []"
proof -
  let ?s = "initialize_globals example_flags static_init"
  let ?coarse = "new_StringEventLog ''JVMCI Events'' ''jvmci'' 20"
  let ?verbose = "new_StringEventLog ''Verbose JVMCI Events'' ''verbose-jvmci'' 2000"
  have fl: "LogEvents example_flags" "JVMCIEventLogLevel example_flags = 3"
    "JVMCITraceLevel example_flags = 1"
    by (simp_all add: example_flags_def)
  have s: "events ?s = Some ?coarse" "verbose_events ?s = Some ?verbose" "effects ?s = []"
    by (simp_all add: initialize_globals_def initialize_runtimes_def initialize_events_def
        new_JVMCIRuntime_def example_flags_def static_init_def Let_def expand_count_power)
  have p: "trace_prefix (Some example_thread) 1 = ''JVMCITrace-1[main]: ''"
    by (simp add: trace_prefix_def decimal_def digits.simps pad_def example_thread_def)
  show ?thesis
    using C6_event_gating [of example_flags 1 ?s ?coarse "Some example_thread" "''hello''"]
      C6_event_gating [of example_flags 2 ?s ?verbose "Some example_thread" "''hello''"]
      C6_event_gating [of example_flags 4 ?s ?verbose "Some example_thread" "''hello''"]
    by (simp add: fl s p new_StringEventLog_def)
qed

text \<open>
  C6 as it was stated, for every call, fails at level 0 on an initialised VM whose log
  level is 1:
  the gate is open (\<open>1 \<ge> 0\<close>), the level is not 1, so the verbose channel is selected,
  which was never constructed; the \<open>guarantee\<close> ends the process before anything is
  logged, and before \<open>vtrace\<close> is reached although the trace gate is open as well. It
  fails in the same way for a level-1 event before \<open>initialize_globals\<close>.
\<close>
theorem C6_event_gating_counterexample:
  "LogEvents example_flags_coarse
   \<and> 0 \<le> JVMCIEventLogLevel example_flags_coarse
   \<and> 0 \<le> JVMCITraceLevel example_flags_coarse
   \<and> event example_flags_coarse (Some example_thread) 0 ''hello''
        (initialize_globals example_flags_coarse static_init)
      = Inl (Guarantee_failed ''JVMCI event log not yet initialized'',
             initialize_globals example_flags_coarse static_init)
   \<and> effects (initialize_globals example_flags_coarse static_init) = []
   \<and> 1 \<le> JVMCIEventLogLevel example_flags_coarse
   \<and> 1 \<le> JVMCITraceLevel example_flags_coarse
   \<and> event example_flags_coarse (Some example_thread) 1 ''hello'' static_init
      = Inl (Guarantee_failed ''JVMCI event log not yet initialized'', static_init)
   \<and> effects static_init = []"
  by (simp add: event_def LOG_TRACE_def vlog_def initialize_globals_def
      initialize_runtimes_def initialize_events_def new_JVMCIRuntime_def
      example_flags_coarse_def example_flags_def static_init_def Let_def)

subsection \<open>Shutdown\<close>


lemma shutdowns_Cons:
  "shutdowns (e # es) = (case e of Runtime_shutdown a \<Rightarrow> [a] | _ \<Rightarrow> []) @ shutdowns es"
  by (simp add: shutdowns_def)

lemma shutdowns_Nil [simp]: "shutdowns [] = []"
  by (simp add: shutdowns_def)

lemma shutdowns_map [simp]: "shutdowns (map Runtime_shutdown as) = as"
  by (induction as) (simp_all add: shutdowns_Cons)

lemma shutdown_returns:
  assumes log: "LogEvents fl \<and> 1 \<le> JVMCIEventLogLevel fl \<longrightarrow> events s = Some log"
    and java: "java_runtime s = None \<longrightarrow> compiler_runtime s = None"
  shows "shutdown fl t s =
     Inr (s\<lparr>in_shutdown := True,
            effects := effects s @ [Mutex_lock, Store_in_shutdown True] @
              ((if LogEvents fl \<and> 1 \<le> JVMCIEventLogLevel fl
                then [Logv (log_handle log) t ''shutting down JVMCI''] else []) @
               (if 1 \<le> JVMCITraceLevel fl
                then [Tty_print (trace_prefix t 1), Tty_print_cr ''shutting down JVMCI'']
                else [])) @
              [Mutex_unlock] @
              map Runtime_shutdown
                ((case java_runtime s of
                    Some j \<Rightarrow> if java_runtime s \<noteq> compiler_runtime s then [j] else []
                  | None \<Rightarrow> []) @
                 (case compiler_runtime s of Some c \<Rightarrow> [c] | None \<Rightarrow> []))\<rparr>)"
proof -
  let ?s2 = "emit (Store_in_shutdown True) (emit Mutex_lock s\<lparr>in_shutdown := True\<rparr>)"
  let ?ev = "(if LogEvents fl \<and> 1 \<le> JVMCIEventLogLevel fl
              then [Logv (log_handle log) t ''shutting down JVMCI''] else []) @
             (if 1 \<le> JVMCITraceLevel fl
              then [Tty_print (trace_prefix t 1), Tty_print_cr ''shutting down JVMCI'']
              else [])"
  have "LogEvents fl \<and> 1 \<le> JVMCIEventLogLevel fl
          \<longrightarrow> (if (1::int) = 1 then events ?s2 else verbose_events ?s2) = Some log"
    using log by (simp add: emit_def)
  then have e: "JVMCI_event_1 fl t ''shutting down JVMCI'' ?s2
      = Inr (?s2\<lparr>effects := effects ?s2 @ ?ev\<rparr>)"
    unfolding JVMCI_event_1_def event1_def by (rule LOG_TRACE_returns)
  show ?thesis
  proof (cases "java_runtime s")
    case None
    with java have "compiler_runtime s = None" by simp
    with None e show ?thesis
      by (simp add: shutdown_def Let_def emit_def)
  next
    case (Some j)
    show ?thesis
    proof (cases "compiler_runtime s")
      case None
      with Some e show ?thesis
        by (simp add: shutdown_def Let_def emit_def JVMCIRuntime_shutdown_def)
    next
      case c: (Some c)
      with Some e show ?thesis
        by (simp add: shutdown_def Let_def emit_def JVMCIRuntime_shutdown_def)
    qed
  qed
qed

text \<open>
  C3: on globals where the coarse channel exists whenever a level-1 event is to be
  logged, and where \<open>java_runtime\<close> is not null unless \<open>compiler_runtime\<close> is null too
  (both hold from \<open>initialize_globals\<close> on), \<open>shutdown\<close> returns after doing, in this
  order: take \<open>JVMCI_lock\<close>, store \<open>true\<close> to \<open>in_shutdown\<close>, emit the level-1 event
  "shutting down JVMCI", give the lock up; then shut down the java-role runtime if it
  is not the compiler-role runtime; then shut down the compiler-role runtime if there
  is one. Nothing else changes, and no runtime is shut down twice.
\<close>
theorem C3_shutdown_phases:
  assumes "LogEvents fl \<and> 1 \<le> JVMCIEventLogLevel fl \<longrightarrow> events s = Some log"
    and "java_runtime s = None \<longrightarrow> compiler_runtime s = None"
  shows "\<exists>ev sd.
     ev = (if LogEvents fl \<and> 1 \<le> JVMCIEventLogLevel fl
           then [Logv (log_handle log) t ''shutting down JVMCI''] else []) @
          (if 1 \<le> JVMCITraceLevel fl
           then [Tty_print (trace_prefix t 1), Tty_print_cr ''shutting down JVMCI'']
           else [])
     \<and> event fl t 1 ''shutting down JVMCI''
         (s\<lparr>in_shutdown := True,
            effects := effects s @ [Mutex_lock, Store_in_shutdown True]\<rparr>)
       = Inr (s\<lparr>in_shutdown := True,
                effects := effects s @ [Mutex_lock, Store_in_shutdown True] @ ev\<rparr>)
     \<and> sd = (case java_runtime s of
               Some j \<Rightarrow> if java_runtime s \<noteq> compiler_runtime s then [j] else []
             | None \<Rightarrow> []) @
            (case compiler_runtime s of Some c \<Rightarrow> [c] | None \<Rightarrow> [])
     \<and> shutdown fl t s
       = Inr (s\<lparr>in_shutdown := True,
                effects := effects s @ [Mutex_lock, Store_in_shutdown True] @ ev @
                  [Mutex_unlock] @ map Runtime_shutdown sd\<rparr>)
     \<and> distinct sd"
proof -
  let ?s2 = "s\<lparr>in_shutdown := True,
               effects := effects s @ [Mutex_lock, Store_in_shutdown True]\<rparr>"
  let ?ev = "(if LogEvents fl \<and> 1 \<le> JVMCIEventLogLevel fl
              then [Logv (log_handle log) t ''shutting down JVMCI''] else []) @
             (if 1 \<le> JVMCITraceLevel fl
              then [Tty_print (trace_prefix t 1), Tty_print_cr ''shutting down JVMCI'']
              else [])"
  let ?sd = "(case java_runtime s of
                Some j \<Rightarrow> if java_runtime s \<noteq> compiler_runtime s then [j] else []
              | None \<Rightarrow> []) @
             (case compiler_runtime s of Some c \<Rightarrow> [c] | None \<Rightarrow> [])"
  have "LogEvents fl \<and> 1 \<le> JVMCIEventLogLevel fl
          \<longrightarrow> (if (1::int) = 1 then events ?s2 else verbose_events ?s2) = Some log"
    using assms(1) by simp
  then have "LOG_TRACE fl t 1 ''shutting down JVMCI'' ?s2
      = Inr (?s2\<lparr>effects := effects ?s2 @ ?ev\<rparr>)"
    by (rule LOG_TRACE_returns)
  then have e: "event fl t 1 ''shutting down JVMCI'' ?s2
      = Inr (s\<lparr>in_shutdown := True,
               effects := effects s @ [Mutex_lock, Store_in_shutdown True] @ ?ev\<rparr>)"
    by (simp add: event_def)
  have d: "distinct ?sd"
    by (auto split: option.splits)
  have "shutdown fl t s
      = Inr (s\<lparr>in_shutdown := True,
               effects := effects s @ [Mutex_lock, Store_in_shutdown True] @ ?ev @
                 [Mutex_unlock] @ map Runtime_shutdown ?sd\<rparr>)"
    using shutdown_returns [OF assms, of t] by simp
  with e d show ?thesis by blast
qed

theorem C3_shutdown_phases_witness:
  "LogEvents example_flags_native \<and> 1 \<le> JVMCIEventLogLevel example_flags_native
   \<and> events (initialize_globals example_flags_native static_init)
       = Some (new_StringEventLog ''JVMCI Events'' ''jvmci'' 20)
   \<and> java_runtime (initialize_globals example_flags_native static_init) = Some 1
   \<and> compiler_runtime (initialize_globals example_flags_native static_init) = Some 0
   \<and> map_sum id effects
       (shutdown example_flags_native (Some example_thread)
          (initialize_globals example_flags_native static_init))
     = Inr [Mutex_lock, Store_in_shutdown True,
            Logv ''jvmci'' (Some example_thread) ''shutting down JVMCI'',
            Tty_print ''JVMCITrace-1[main]: '', Tty_print_cr ''shutting down JVMCI'',
            Mutex_unlock, Runtime_shutdown 1, Runtime_shutdown 0]
   \<and> map_sum id in_shutdown
       (shutdown example_flags_native (Some example_thread)
          (initialize_globals example_flags_native static_init))
     = Inr True"
proof -
  let ?s = "initialize_globals example_flags_native static_init"
  let ?coarse = "new_StringEventLog ''JVMCI Events'' ''jvmci'' 20"
  have fl: "LogEvents example_flags_native" "JVMCIEventLogLevel example_flags_native = 3"
    "JVMCITraceLevel example_flags_native = 1"
    by (simp_all add: example_flags_native_def example_flags_def)
  have s: "events ?s = Some ?coarse" "java_runtime ?s = Some 1" "compiler_runtime ?s = Some 0"
    "effects ?s = []"
    by (simp_all add: initialize_globals_def initialize_runtimes_def initialize_events_def
        new_JVMCIRuntime_def example_flags_native_def example_flags_def static_init_def Let_def)
  have p: "trace_prefix (Some example_thread) 1 = ''JVMCITrace-1[main]: ''"
    by (simp add: trace_prefix_def decimal_def digits.simps pad_def example_thread_def)
  have l: "LogEvents example_flags_native \<and> 1 \<le> JVMCIEventLogLevel example_flags_native
      \<longrightarrow> events ?s = Some ?coarse"
    by (simp add: s)
  have j: "java_runtime ?s = None \<longrightarrow> compiler_runtime ?s = None"
    by (simp add: s)
  show ?thesis
    using C3_shutdown_phases [OF l j, of "Some example_thread"]
    by (simp add: fl s p new_StringEventLog_def)
qed




subsection \<open>The shared library\<close>

lemma get_shared_library_fast:
  assumes "shared_library_handle s \<noteq> None \<or> \<not> load"
  shows "get_shared_library fl os clr load s
           = Inr ((shared_library_handle s, shared_library_path s), s)"
  using assms by (auto simp: get_shared_library_def Let_def)

lemma get_shared_library_slow:
  assumes "shared_library_handle s = None" and "load"
    and "ASSERT fl \<longrightarrow> owns_JVMCI_lock clr"
    and "d = (case JVMCILibPath fl of Some lp \<Rightarrow> lp | None \<Rightarrow> get_dll_dir os)"
  shows "get_shared_library fl os clr load s =
     (case dll_locate_lib os d (JVMCI_SHARED_LIBRARY_NAME os) of
        None \<Rightarrow>
          Inl (Fatal (case JVMCILibPath fl of
                        Some lp \<Rightarrow> ''Unable to create path to JVMCI shared library based on value of JVMCILibPath (''
                                     @ lp @ '')''
                      | None \<Rightarrow> ''Unable to create path to JVMCI shared library''),
               s\<lparr>effects := effects s @ [Dll_locate_lib d (JVMCI_SHARED_LIBRARY_NAME os)]\<rparr>)
      | Some p \<Rightarrow>
          (case fst (dll_load os p) of
             None \<Rightarrow>
               Inl (Fatal (''Unable to load JVMCI shared library from '' @ p @ '': ''
                           @ snd (dll_load os p)),
                    s\<lparr>effects := effects s @
                         [Dll_locate_lib d (JVMCI_SHARED_LIBRARY_NAME os), Dll_load p]\<rparr>)
           | Some h \<Rightarrow>
               (case JVMCI_event_1 fl (current clr) (''loaded JVMCI shared library from '' @ p)
                       (s\<lparr>effects := effects s @
                            [Dll_locate_lib d (JVMCI_SHARED_LIBRARY_NAME os), Dll_load p],
                          shared_library_handle := Some h, shared_library_path := Some p\<rparr>) of
                  Inl e \<Rightarrow> Inl e
                | Inr s4 \<Rightarrow> Inr ((shared_library_handle s4, shared_library_path s4), s4))))"
proof (cases "dll_locate_lib os d (JVMCI_SHARED_LIBRARY_NAME os)")
  case None
  with assms show ?thesis
    by (auto simp: get_shared_library_def locate_shared_library_def emit_def Let_def
        split: option.splits)
next
  case (Some p)
  with assms(4) have loc: "locate_shared_library fl os s
      = Inr (p, s\<lparr>effects := effects s @ [Dll_locate_lib d (JVMCI_SHARED_LIBRARY_NAME os)]\<rparr>)"
    by (auto simp: locate_shared_library_def emit_def Let_def split: option.splits)
  obtain handle ebuf where dl: "dll_load os p = (handle, ebuf)"
    by (cases "dll_load os p")
  show ?thesis
  proof (cases handle)
    case None
    with assms(1-3) Some loc dl show ?thesis
      by (auto simp: get_shared_library_def Let_def emit_def)
  next
    case h: (Some h)
    with assms(1-3) Some loc dl show ?thesis
      by (auto simp: get_shared_library_def Let_def emit_def)
  qed
qed

lemma loads_append: "loads (s\<lparr>effects := effects s @ es\<rparr>)
    = loads s + length (filter (\<lambda>e. case e of Dll_load p \<Rightarrow> True | _ \<Rightarrow> False) es)"
  by (simp add: loads_def)

lemma LOG_TRACE_library:
  assumes "LOG_TRACE fl t l m s = Inr s'"
  shows "loads s' = loads s \<and> shared_library_handle s' = shared_library_handle s
         \<and> shared_library_path s' = shared_library_path s"
  using assms
  by (auto simp: LOG_TRACE_def vlog_def vtrace_def emit_def loads_def Let_def
      split: if_splits option.splits sum.splits)

lemma get_shared_library_step:
  assumes "get_shared_library fl os clr load s = Inr (r, s')"
  shows "r = (shared_library_handle s', shared_library_path s')
     \<and> (shared_library_handle s \<noteq> None \<longrightarrow> s' = s)
     \<and> (shared_library_handle s' = None \<longrightarrow> s' = s)
     \<and> (shared_library_handle s = None \<and> shared_library_handle s' \<noteq> None
          \<longrightarrow> load \<and> loads s' = loads s + 1 \<and> shared_library_path s' \<noteq> None)"
proof (cases "shared_library_handle s \<noteq> None \<or> \<not> load")
  case True
  with assms show ?thesis
    by (auto simp: get_shared_library_fast)
next
  case False
  then have n: "shared_library_handle s = None" and l: "load" by simp_all
  from assms n l have a: "ASSERT fl \<longrightarrow> owns_JVMCI_lock clr"
    by (auto simp: get_shared_library_def Let_def split: if_splits)
  let ?d = "case JVMCILibPath fl of Some lp \<Rightarrow> lp | None \<Rightarrow> get_dll_dir os"
  let ?n = "JVMCI_SHARED_LIBRARY_NAME os"
  from assms obtain p h where
    e: "JVMCI_event_1 fl (current clr) (''loaded JVMCI shared library from '' @ p)
          (s\<lparr>effects := effects s @ [Dll_locate_lib ?d ?n, Dll_load p],
             shared_library_handle := Some h, shared_library_path := Some p\<rparr>) = Inr s'"
    and r: "r = (shared_library_handle s', shared_library_path s')"
    unfolding get_shared_library_slow [OF n l a refl]
    by (auto split: sum.splits option.splits)
  let ?s3 = "s\<lparr>effects := effects s @ [Dll_locate_lib ?d ?n, Dll_load p],
               shared_library_handle := Some h, shared_library_path := Some p\<rparr>"
  from e have "loads s' = loads ?s3 \<and> shared_library_handle s' = shared_library_handle ?s3
      \<and> shared_library_path s' = shared_library_path ?s3"
    unfolding JVMCI_event_1_def event1_def by (rule LOG_TRACE_library)
  moreover have "loads ?s3 = loads s + 1"
    by (simp add: loads_def)
  ultimately show ?thesis
    using r n l by simp
qed

lemma get_shared_library_calls_Cons:
  assumes "get_shared_library fl os clr load s = Inr (r, s1)"
    and "get_shared_library_calls fl os cs s1 = Inr (rs, s2)"
  shows "get_shared_library_calls fl os ((clr, load) # cs) s = Inr (r # rs, s2)"
  using assms by simp

lemma get_shared_library_calls_published:
  assumes "shared_library_handle s \<noteq> None"
  shows "get_shared_library_calls fl os cs s
           = Inr (replicate (length cs) (shared_library_handle s, shared_library_path s), s)"
  using assms
  by (induction cs) (auto simp: get_shared_library_fast)

lemma get_shared_library_calls_loads:
  assumes "get_shared_library_calls fl os cs s = Inr (rs, s')"
  shows "loads s' \<le> loads s + 1
     \<and> (loads s' = loads s + 1 \<longrightarrow>
          shared_library_handle s = None \<and> shared_library_handle s' \<noteq> None)
     \<and> (shared_library_handle s \<noteq> None \<longrightarrow> s' = s)"
  using assms
proof (induction cs arbitrary: s rs)
  case Nil
  then show ?case by simp
next
  case (Cons c cs)
  obtain clr load where c: "c = (clr, load)" by (cases c)
  from Cons.prems c obtain r s1 rs1 where
    one: "get_shared_library fl os clr load s = Inr (r, s1)"
    and rest: "get_shared_library_calls fl os cs s1 = Inr (rs1, s')"
    by (auto split: sum.splits prod.splits)
  note step = get_shared_library_step [OF one]
  note ih = Cons.IH [OF rest]
  show ?case
  proof (cases "shared_library_handle s1")
    case None
    with step have "s1 = s" by simp
    with ih show ?thesis by simp
  next
    case (Some h)
    with ih have same: "s' = s1" by simp
    show ?thesis
    proof (cases "shared_library_handle s")
      case None
      with step Some have "loads s1 = loads s + 1" by simp
      with same None Some show ?thesis by simp
    next
      case h0: (Some h0)
      with step have "s1 = s" by simp
      with same h0 show ?thesis by simp
    qed
  qed
qed

text \<open>
  C2: a call with a handle already published, or with \<open>load\<close> false, returns the
  current handle and path and leaves the globals, effects included, as they are. Once
  a handle is published, any sequence of later calls returns that handle and that path
  every time and changes nothing. A loading call that returns has published a handle
  and a path and returns them. In any sequence of calls from any globals,
  \<open>os::dll_load\<close> is called at most once, and only while no handle is published.
\<close>
theorem C2_shared_library_loaded_once:
  "(shared_library_handle s \<noteq> None \<or> \<not> load \<longrightarrow>
      get_shared_library fl os clr load s
        = Inr ((shared_library_handle s, shared_library_path s), s))
   \<and> (shared_library_handle s \<noteq> None \<longrightarrow>
      get_shared_library_calls fl os cs s
        = Inr (replicate (length cs) (shared_library_handle s, shared_library_path s), s))
   \<and> (\<forall>r s'. get_shared_library fl os clr True s = Inr (r, s') \<longrightarrow>
         shared_library_handle s' \<noteq> None
         \<and> r = (shared_library_handle s', shared_library_path s'))
   \<and> (\<forall>rs s'. get_shared_library_calls fl os cs s = Inr (rs, s') \<longrightarrow>
         loads s' \<le> loads s + 1
         \<and> (loads s' = loads s + 1 \<longrightarrow>
              shared_library_handle s = None \<and> shared_library_handle s' \<noteq> None))"
proof -
  have "shared_library_handle s' \<noteq> None \<and> r = (shared_library_handle s', shared_library_path s')"
    if g: "get_shared_library fl os clr True s = Inr (r, s')" for r s'
  proof (cases "shared_library_handle s")
    case None
    with g have "ASSERT fl \<longrightarrow> owns_JVMCI_lock clr"
      by (auto simp: get_shared_library_def Let_def split: if_splits)
    with g None obtain es p h where
      "JVMCI_event_1 fl (current clr) (''loaded JVMCI shared library from '' @ p)
          (s\<lparr>effects := es,
             shared_library_handle := Some h, shared_library_path := Some p\<rparr>) = Inr s'"
      by (auto simp: get_shared_library_slow [OF _ _ _ refl] split: sum.splits option.splits)
    then have "shared_library_handle s' = Some h"
      unfolding JVMCI_event_1_def event1_def by (auto dest: LOG_TRACE_library)
    with get_shared_library_step [OF g] show ?thesis by simp
  next
    case (Some h)
    with get_shared_library_step [OF g] show ?thesis by simp
  qed
  then show ?thesis
    using get_shared_library_fast [of s load fl os clr]
      get_shared_library_calls_published [of s fl os cs]
      get_shared_library_calls_loads [of fl os cs s]
    by blast
qed

theorem C2_shared_library_loaded_once_witness:
  "shared_library_handle (initialize_globals example_flags_native static_init) = None
   \<and> loads (initialize_globals example_flags_native static_init) = 0
   \<and> (\<exists>s'. get_shared_library_calls example_flags_native example_os example_calls
              (initialize_globals example_flags_native static_init)
            = Inr ([(None, None),
                    (Some 4096, Some ''/opt/jdk/lib/libjvmcicompiler.so''),
                    (Some 4096, Some ''/opt/jdk/lib/libjvmcicompiler.so''),
                    (Some 4096, Some ''/opt/jdk/lib/libjvmcicompiler.so'')], s')
          \<and> loads s' = 1 \<and> shared_library_handle s' = Some 4096)"
proof -
  let ?s = "initialize_globals example_flags_native static_init"
  let ?fl = "example_flags_native"
  let ?p = "''/opt/jdk/lib/libjvmcicompiler.so''"
  let ?coarse = "new_StringEventLog ''JVMCI Events'' ''jvmci'' 20"
  have fl: "LogEvents ?fl" "JVMCIEventLogLevel ?fl = 3" "JVMCITraceLevel ?fl = 1"
    "JVMCILibPath ?fl = None" "ASSERT ?fl"
    by (simp_all add: example_flags_native_def example_flags_def)
  have s: "events ?s = Some ?coarse" "shared_library_handle ?s = None"
    "shared_library_path ?s = None" "effects ?s = []"
    by (simp_all add: initialize_globals_def initialize_runtimes_def initialize_events_def
        new_JVMCIRuntime_def example_flags_native_def example_flags_def static_init_def Let_def)
  have l0: "loads ?s = 0"
    by (simp add: loads_def s)
  have d: "''/opt/jdk/lib''
      = (case JVMCILibPath ?fl of Some lp \<Rightarrow> lp | None \<Rightarrow> get_dll_dir example_os)"
    by (simp add: fl example_os_def)
  have loc: "dll_locate_lib example_os ''/opt/jdk/lib'' (JVMCI_SHARED_LIBRARY_NAME example_os)
      = Some ?p"
    by (simp add: example_os_def)
  have nm: "JVMCI_SHARED_LIBRARY_NAME example_os = ''jvmcicompiler''"
    by (simp add: example_os_def)
  have ld: "dll_load example_os ?p = (Some 4096, '''')"
    by (simp add: example_os_def)
  have c: "current example_caller = Some example_thread" "owns_JVMCI_lock example_caller"
    by (simp_all add: example_caller_def)
  let ?s3 = "?s\<lparr>effects := effects ?s @
                  [Dll_locate_lib ''/opt/jdk/lib'' ''jvmcicompiler'', Dll_load ?p],
                shared_library_handle := Some 4096, shared_library_path := Some ?p\<rparr>"
  let ?msg = "''loaded JVMCI shared library from '' @ ?p"
  let ?s4 = "?s3\<lparr>effects := effects ?s3 @
      (if LogEvents ?fl \<and> 1 \<le> JVMCIEventLogLevel ?fl
       then [Logv (log_handle ?coarse) (Some example_thread) ?msg] else []) @
      (if 1 \<le> JVMCITraceLevel ?fl
       then [Tty_print (trace_prefix (Some example_thread) 1), Tty_print_cr ?msg] else [])\<rparr>"
  have "LogEvents ?fl \<and> 1 \<le> JVMCIEventLogLevel ?fl
      \<longrightarrow> (if (1::int) = 1 then events ?s3 else verbose_events ?s3) = Some ?coarse"
    by (simp add: s)
  then have ev: "JVMCI_event_1 ?fl (Some example_thread) ?msg ?s3 = Inr ?s4"
    unfolding JVMCI_event_1_def event1_def by (rule LOG_TRACE_returns)
  have h4: "shared_library_handle ?s4 = Some 4096" "shared_library_path ?s4 = Some ?p"
    by simp_all
  have l4: "loads ?s4 = 1"
    by (simp add: loads_def s fl)
  have first: "get_shared_library ?fl example_os example_caller False ?s
      = Inr ((None, None), ?s)"
    using C2_shared_library_loaded_once [of ?s False ?fl example_os example_caller "[]"]
    by (simp add: s)
  have a: "ASSERT ?fl \<longrightarrow> owns_JVMCI_lock example_caller"
    by (simp add: c)
  have second: "get_shared_library ?fl example_os example_caller True ?s
      = Inr ((Some 4096, Some ?p), ?s4)"
    unfolding get_shared_library_slow [OF s(2) TrueI a d] loc
    using ev by (simp add: ld c nm)
  have pub: "shared_library_handle ?s4 \<noteq> None"
    by simp
  have rep: "replicate (length [(example_caller, True), (example_caller, False)])
               (shared_library_handle ?s4, shared_library_path ?s4)
             = [(Some 4096, Some ?p), (Some 4096, Some ?p)]"
    by simp
  from pub C2_shared_library_loaded_once
      [of ?s4 True ?fl example_os example_caller
        "[(example_caller, True), (example_caller, False)]"]
  have "get_shared_library_calls ?fl example_os
        [(example_caller, True), (example_caller, False)] ?s4
      = Inr (replicate (length [(example_caller, True), (example_caller, False)])
               (shared_library_handle ?s4, shared_library_path ?s4), ?s4)"
    by blast
  then have rest: "get_shared_library_calls ?fl example_os
        [(example_caller, True), (example_caller, False)] ?s4
      = Inr ([(Some 4096, Some ?p), (Some 4096, Some ?p)], ?s4)"
    unfolding rep .
  have "get_shared_library_calls ?fl example_os example_calls ?s
      = Inr ([(None, None), (Some 4096, Some ?p), (Some 4096, Some ?p), (Some 4096, Some ?p)],
             ?s4)"
    unfolding example_calls_def
    by (rule get_shared_library_calls_Cons [OF first get_shared_library_calls_Cons [OF second rest]])
  with l4 h4 s l0 show ?thesis
    by blast
qed

text \<open>
  C8, amended: in the loading path (no handle published, \<open>load\<close> true, the lock
  assertion passed) every failure is fatal and the call does not return. The globals
  at the abort show what had been done by then. When no path can be built, the path
  lookup was called once and the loader not at all, and the message carries neither a
  resolved path nor an error text: it names the value of \<open>JVMCILibPath\<close> when that is
  set and is a fixed text otherwise. When the loader fails, the path lookup and the
  loader were each called once, and the message is "Unable to load JVMCI shared
  library from", the path, a colon and the loader's error text. In both cases nothing
  else happened: no second attempt, no handle or path published, nothing logged.
\<close>
theorem C8_library_failure_fatal:
  assumes "shared_library_handle s = None" and "ASSERT fl \<longrightarrow> owns_JVMCI_lock clr"
  shows "(\<forall>lp. JVMCILibPath fl = Some lp
            \<and> dll_locate_lib os lp (JVMCI_SHARED_LIBRARY_NAME os) = None \<longrightarrow>
            get_shared_library fl os clr True s
              = Inl (Fatal (''Unable to create path to JVMCI shared library based on value of JVMCILibPath (''
                            @ lp @ '')''),
                     s\<lparr>effects := effects s @
                          [Dll_locate_lib lp (JVMCI_SHARED_LIBRARY_NAME os)]\<rparr>))
     \<and> (JVMCILibPath fl = None
          \<and> dll_locate_lib os (get_dll_dir os) (JVMCI_SHARED_LIBRARY_NAME os) = None \<longrightarrow>
          get_shared_library fl os clr True s
            = Inl (Fatal ''Unable to create path to JVMCI shared library'',
                   s\<lparr>effects := effects s @
                        [Dll_locate_lib (get_dll_dir os) (JVMCI_SHARED_LIBRARY_NAME os)]\<rparr>))
     \<and> (\<forall>d p ebuf.
          d = (case JVMCILibPath fl of Some lp \<Rightarrow> lp | None \<Rightarrow> get_dll_dir os)
          \<and> dll_locate_lib os d (JVMCI_SHARED_LIBRARY_NAME os) = Some p
          \<and> dll_load os p = (None, ebuf) \<longrightarrow>
          get_shared_library fl os clr True s
            = Inl (Fatal (''Unable to load JVMCI shared library from '' @ p @ '': '' @ ebuf),
                   s\<lparr>effects := effects s @
                        [Dll_locate_lib d (JVMCI_SHARED_LIBRARY_NAME os), Dll_load p]\<rparr>)
          \<and> sublist p (''Unable to load JVMCI shared library from '' @ p @ '': '' @ ebuf)
          \<and> sublist ebuf (''Unable to load JVMCI shared library from '' @ p @ '': '' @ ebuf))"
proof -
  note slow = get_shared_library_slow [OF assms(1) TrueI assms(2), of _ os]
  have a: "get_shared_library fl os clr True s
      = Inl (Fatal (''Unable to create path to JVMCI shared library based on value of JVMCILibPath (''
                    @ lp @ '')''),
             s\<lparr>effects := effects s @ [Dll_locate_lib lp (JVMCI_SHARED_LIBRARY_NAME os)]\<rparr>)"
    if "JVMCILibPath fl = Some lp" "dll_locate_lib os lp (JVMCI_SHARED_LIBRARY_NAME os) = None"
    for lp
  proof -
    from that(1) have "lp = (case JVMCILibPath fl of Some lp \<Rightarrow> lp | None \<Rightarrow> get_dll_dir os)"
      by simp
    from slow [OF this] that show ?thesis by simp
  qed
  have b: "get_shared_library fl os clr True s
      = Inl (Fatal ''Unable to create path to JVMCI shared library'',
             s\<lparr>effects := effects s @
                  [Dll_locate_lib (get_dll_dir os) (JVMCI_SHARED_LIBRARY_NAME os)]\<rparr>)"
    if "JVMCILibPath fl = None"
      "dll_locate_lib os (get_dll_dir os) (JVMCI_SHARED_LIBRARY_NAME os) = None"
  proof -
    from that(1)
    have "get_dll_dir os = (case JVMCILibPath fl of Some lp \<Rightarrow> lp | None \<Rightarrow> get_dll_dir os)"
      by simp
    from slow [OF this] that show ?thesis by simp
  qed
  have c: "get_shared_library fl os clr True s
      = Inl (Fatal (''Unable to load JVMCI shared library from '' @ p @ '': '' @ ebuf),
             s\<lparr>effects := effects s @
                  [Dll_locate_lib d (JVMCI_SHARED_LIBRARY_NAME os), Dll_load p]\<rparr>)"
    if "d = (case JVMCILibPath fl of Some lp \<Rightarrow> lp | None \<Rightarrow> get_dll_dir os)"
      "dll_locate_lib os d (JVMCI_SHARED_LIBRARY_NAME os) = Some p"
      "dll_load os p = (None, ebuf)"
    for d p ebuf
    using slow [OF that(1)] that(2,3) by simp
  have d: "sublist p (''Unable to load JVMCI shared library from '' @ p @ '': '' @ ebuf)"
    for p ebuf :: string
    by (rule sublist_appendI)
  have e: "sublist ebuf (''Unable to load JVMCI shared library from '' @ p @ '': '' @ ebuf)"
    for p ebuf :: string
    using sublist_append_leftI [of ebuf "''Unable to load JVMCI shared library from '' @ p @ '': ''"]
    by simp
  from a b c d e show ?thesis
    by blast
qed

theorem C8_library_failure_fatal_witness:
  "shared_library_handle (initialize_globals example_flags_native static_init) = None
   \<and> owns_JVMCI_lock example_caller
   \<and> effects (initialize_globals example_flags_native static_init) = []
   \<and> get_shared_library example_flags_native example_os_noload example_caller True
        (initialize_globals example_flags_native static_init)
      = Inl (Fatal ''Unable to load JVMCI shared library from /opt/jdk/lib/libjvmcicompiler.so: cannot open shared object file'',
             initialize_globals example_flags_native static_init
               \<lparr>effects := [Dll_locate_lib ''/opt/jdk/lib'' ''jvmcicompiler'',
                             Dll_load ''/opt/jdk/lib/libjvmcicompiler.so'']\<rparr>)
   \<and> get_shared_library example_flags_libpath example_os_broken example_caller True
        (initialize_globals example_flags_native static_init)
      = Inl (Fatal ''Unable to create path to JVMCI shared library based on value of JVMCILibPath (/graal)'',
             initialize_globals example_flags_native static_init
               \<lparr>effects := [Dll_locate_lib ''/graal'' ''jvmcicompiler'']\<rparr>)"
proof -
  let ?s = "initialize_globals example_flags_native static_init"
  have s: "shared_library_handle ?s = None" "effects ?s = []"
    by (simp_all add: initialize_globals_def initialize_runtimes_def initialize_events_def
        new_JVMCIRuntime_def example_flags_native_def example_flags_def static_init_def Let_def)
  have o: "owns_JVMCI_lock example_caller"
    by (simp add: example_caller_def)
  then have a1: "ASSERT example_flags_native \<longrightarrow> owns_JVMCI_lock example_caller"
    and a2: "ASSERT example_flags_libpath \<longrightarrow> owns_JVMCI_lock example_caller"
    by simp_all
  have "get_shared_library example_flags_native example_os_noload example_caller True ?s
      = Inl (Fatal (''Unable to load JVMCI shared library from ''
                    @ ''/opt/jdk/lib/libjvmcicompiler.so'' @ '': ''
                    @ ''cannot open shared object file''),
             ?s\<lparr>effects := effects ?s @ [Dll_locate_lib ''/opt/jdk/lib'' ''jvmcicompiler'',
                             Dll_load ''/opt/jdk/lib/libjvmcicompiler.so'']\<rparr>)"
    using C8_library_failure_fatal [OF s(1) a1, of example_os_noload]
    by (simp add: example_os_noload_def example_os_def example_flags_native_def
        example_flags_def)
  moreover have "get_shared_library example_flags_libpath example_os_broken example_caller True ?s
      = Inl (Fatal (''Unable to create path to JVMCI shared library based on value of JVMCILibPath (''
                    @ ''/graal'' @ '')''),
             ?s\<lparr>effects := effects ?s @ [Dll_locate_lib ''/graal'' ''jvmcicompiler'']\<rparr>)"
    using C8_library_failure_fatal [OF s(1) a2, of example_os_broken]
    by (simp add: example_os_broken_def example_flags_libpath_def)
  ultimately show ?thesis
    using s o by simp
qed

text \<open>
  C8 as it was stated, with the path and the loader's error text in every message,
  fails where no path can be built and \<open>JVMCILibPath\<close> is not set: the process ends
  after the one path lookup, with a fixed message that contains neither the directory
  searched, nor the library's name, nor any text of the loader, which was never called.
\<close>
theorem C8_library_failure_fatal_counterexample:
  "JVMCILibPath example_flags_native = None
   \<and> dll_locate_lib example_os_broken (get_dll_dir example_os_broken)
        (JVMCI_SHARED_LIBRARY_NAME example_os_broken) = None
   \<and> get_shared_library example_flags_native example_os_broken example_caller True
        (initialize_globals example_flags_native static_init)
      = Inl (Fatal ''Unable to create path to JVMCI shared library'',
             initialize_globals example_flags_native static_init
               \<lparr>effects := [Dll_locate_lib ''/opt/jdk/lib'' ''jvmcicompiler'']\<rparr>)
   \<and> get_dll_dir example_os_broken = ''/opt/jdk/lib''
   \<and> \<not> sublist ''/opt/jdk/lib'' ''Unable to create path to JVMCI shared library''
   \<and> JVMCI_SHARED_LIBRARY_NAME example_os_broken = ''jvmcicompiler''
   \<and> \<not> sublist ''jvmcicompiler'' ''Unable to create path to JVMCI shared library''
   \<and> snd (dll_load example_os_broken ''/opt/jdk/lib/libjvmcicompiler.so'')
      = ''cannot open shared object file''
   \<and> \<not> sublist ''cannot open shared object file''
          ''Unable to create path to JVMCI shared library''"
proof -
  let ?s = "initialize_globals example_flags_native static_init"
  have s: "shared_library_handle ?s = None" "effects ?s = []"
    by (simp_all add: initialize_globals_def initialize_runtimes_def initialize_events_def
        new_JVMCIRuntime_def example_flags_native_def example_flags_def static_init_def Let_def)
  have n1: "\<not> sublist ''/opt/jdk/lib'' ''Unable to create path to JVMCI shared library''"
    by code_simp
  have n2: "\<not> sublist ''jvmcicompiler'' ''Unable to create path to JVMCI shared library''"
    by code_simp
  have n3: "\<not> sublist ''cannot open shared object file''
              ''Unable to create path to JVMCI shared library''"
    by code_simp
  have f1: "JVMCILibPath example_flags_native = None"
    by (simp add: example_flags_native_def example_flags_def)
  have f2: "dll_locate_lib example_os_broken (get_dll_dir example_os_broken)
        (JVMCI_SHARED_LIBRARY_NAME example_os_broken) = None"
    by (simp add: example_os_broken_def)
  have f3: "get_dll_dir example_os_broken = ''/opt/jdk/lib''"
    by (simp add: example_os_broken_def)
  have f4: "JVMCI_SHARED_LIBRARY_NAME example_os_broken = ''jvmcicompiler''"
    by (simp add: example_os_broken_def)
  have f5: "snd (dll_load example_os_broken ''/opt/jdk/lib/libjvmcicompiler.so'')
      = ''cannot open shared object file''"
    by (simp add: example_os_broken_def)
  have a: "ASSERT example_flags_native \<longrightarrow> owns_JVMCI_lock example_caller"
    by (simp add: example_caller_def)
  have d: "''/opt/jdk/lib''
      = (case JVMCILibPath example_flags_native of
           Some lp \<Rightarrow> lp | None \<Rightarrow> get_dll_dir example_os_broken)"
    by (simp add: f1 f3)
  have g: "get_shared_library example_flags_native example_os_broken example_caller True ?s
      = Inl (Fatal ''Unable to create path to JVMCI shared library'',
             ?s\<lparr>effects := [Dll_locate_lib ''/opt/jdk/lib'' ''jvmcicompiler'']\<rparr>)"
    unfolding get_shared_library_slow [OF s(1) TrueI a d]
    using f2 by (simp add: f1 f3 f4 s(2))
  show ?thesis
    by (intro conjI f1 f2 g f3 n1 f4 n2 f5 n3)
qed

end
